theory Spec2Isabelle
  imports Complex_Main
begin

section \<open>Values of the forecast engine\<close>

text \<open>
  The engine of \<^verbatim>\<open>src/app.py\<close> computes with Python floats. A float is idealised here as a
  real number: rounding, overflow and the IEEE special values are outside this model, except
  for the division of section "EBITDA margin", where the special values are the subject.

  One operation of the engine leaves the floats: Python's \<^verbatim>\<open>**\<close> on two floats returns a
  complex number when the base is negative and the exponent is not an integer. A Python number
  is therefore a float or a complex, and arithmetic on a mixed pair promotes to complex.
\<close>

datatype pynum = is_Fl: Fl real | is_Cx: Cx complex

fun to_complex :: "pynum \<Rightarrow> complex" where
  "to_complex (Fl x) = complex_of_real x"
| "to_complex (Cx z) = z"

fun py_mul :: "pynum \<Rightarrow> pynum \<Rightarrow> pynum" where
  "py_mul (Fl a) (Fl b) = Fl (a * b)"
| "py_mul a b = Cx (to_complex a * to_complex b)"

fun py_add :: "pynum \<Rightarrow> pynum \<Rightarrow> pynum" where
  "py_add (Fl a) (Fl b) = Fl (a + b)"
| "py_add a b = Cx (to_complex a + to_complex b)"

fun py_sub :: "pynum \<Rightarrow> pynum \<Rightarrow> pynum" where
  "py_sub (Fl a) (Fl b) = Fl (a - b)"
| "py_sub a b = Cx (to_complex a - to_complex b)"

fun py_neg :: "pynum \<Rightarrow> pynum" where
  "py_neg (Fl a) = Fl (- a)"
| "py_neg (Cx z) = Cx (- z)"

datatype error = ZeroDivisionError | DomainError

text \<open>
  \<^verbatim>\<open>v ** w\<close> for floats \<^verbatim>\<open>v\<close>, \<^verbatim>\<open>w\<close>, in the case order of the interpreter:
  \<^verbatim>\<open>x ** 0\<close> is 1; \<^verbatim>\<open>0.0 ** w\<close> raises ZeroDivisionError for negative \<^verbatim>\<open>w\<close> and is 0
  otherwise; a negative base with a non-integral exponent gives the complex power, computed from
  the polar form of the base (modulus \<^verbatim>\<open>|v|\<close>, angle \<^verbatim>\<open>pi\<close>); a negative base with an integral
  exponent gives the signed integer power; a positive base gives the real power.
  No branch raises DomainError: the constructor exists to state what the code does not do.
\<close>

definition float_pow :: "real \<Rightarrow> real \<Rightarrow> error + pynum" where
  "float_pow v w =
     (if w = 0 then Inr (Fl 1)
      else if v = 0 then (if w < 0 then Inl ZeroDivisionError else Inr (Fl 0))
      else if v < 0 then
        (if real_of_int \<lfloor>w\<rfloor> \<noteq> w
         then Inr (Cx (Complex ((\<bar>v\<bar> powr w) * cos (pi * w)) ((\<bar>v\<bar> powr w) * sin (pi * w))))
         else Inr (Fl (v powi \<lfloor>w\<rfloor>)))
      else Inr (Fl (v powr w)))"

section \<open>Inputs: the drivers and the noise source\<close>

text \<open>
  The sidebar controls are module-level variables that \<^verbatim>\<open>generate_forecast\<close> reads as
  globals; only \<^verbatim>\<open>revenue_retention\<close> is passed as its argument.
\<close>

record drivers =
  corp_growth :: real
  fund_growth :: real
  advisory_growth :: real
  wage_inflation :: real
  q1_seasonality :: bool

text \<open>
  \<^verbatim>\<open>np.random.normal(1.0, 0.02)\<close> reads and advances the process-global generator. The state
  of the generator is the sequence of the values its coming calls return; one call returns the
  head and leaves the rest.
\<close>

type_synonym rng = "nat \<Rightarrow> real"

definition random_normal :: "rng \<Rightarrow> real \<times> rng" where
  "random_normal s = (s 0, \<lambda>n. s (Suc n))"

text \<open>
  The type \<open>rng\<close> admits every sequence of reals, which is more than the generator can
  return. The sampler behind \<^verbatim>\<open>np.random.normal\<close> is the polar method on uniforms of 53 bits:
  a standard normal draw \<open>z\<close> has \<open>z\<^sup>2 \<le> 2 * 104 * ln 2\<close>, so \<open>\<bar>z\<bar> < 12.01\<close>, and a draw with
  mean 1.0 and standard deviation 0.02 lies between 0.7598 and 1.2402. \<open>normal_draw\<close> holds
  of the values a call can return, \<open>normal_draws\<close> of a source whose twelve calls of a run
  return such values.
\<close>

definition normal_draw :: "real \<Rightarrow> bool" where
  "normal_draw x \<longleftrightarrow> 0.7598 \<le> x \<and> x \<le> 1.2402"

definition normal_draws :: "rng \<Rightarrow> bool" where
  "normal_draws s \<longleftrightarrow> list_all (\<lambda>i. normal_draw (s i)) [0..<12]"

section \<open>The monthly record\<close>

record row =
  Month :: string
  Month_Num :: nat
  Rev_Corporate :: pynum
  Rev_Fund :: pynum
  Rev_Advisory :: pynum
  Total_Revenue :: pynum
  Direct_Costs :: pynum
  OpEx :: pynum
  EBITDA :: pynum

text \<open>
  \<^verbatim>\<open>pd.date_range(start='2025-01-01', periods=12, freq='ME')\<close>: the twelve month ends of 2025,
  as (year, month, day); \<^verbatim>\<open>strftime("%b")\<close> gives the abbreviated month name.
\<close>

type_synonym date = "nat \<times> nat \<times> nat"

definition months :: "date list" where
  "months = [(2025, 1, 31), (2025, 2, 28), (2025, 3, 31), (2025, 4, 30),
             (2025, 5, 31), (2025, 6, 30), (2025, 7, 31), (2025, 8, 31),
             (2025, 9, 30), (2025, 10, 31), (2025, 11, 30), (2025, 12, 31)]"

fun strftime_b :: "date \<Rightarrow> string" where
  "strftime_b (y, m, d) =
     (if m = 1 then ''Jan'' else if m = 2 then ''Feb'' else if m = 3 then ''Mar''
      else if m = 4 then ''Apr'' else if m = 5 then ''May'' else if m = 6 then ''Jun''
      else if m = 7 then ''Jul'' else if m = 8 then ''Aug'' else if m = 9 then ''Sep''
      else if m = 10 then ''Oct'' else if m = 11 then ''Nov'' else ''Dec'')"

section \<open>The calculation engine\<close>

definition base_corp :: real where "base_corp = 690 / 12"
definition base_fund :: real where "base_fund = 290 / 12"
definition base_adv :: real where "base_adv = 170 / 12"
definition base_cost :: real where "base_cost = 520 / 12"
definition base_opex :: real where "base_opex = 285 / 12"

text \<open>Lines 59 to 66: the seasonality factor of corporate revenue.\<close>

definition season_factor :: "bool \<Rightarrow> nat \<Rightarrow> real" where
  "season_factor q1 month_num =
     (if q1 then
        (if month_num \<in> set [1, 2] then 1.15
         else if month_num = 3 then 1.05
         else 0.95)
      else 1.0)"

text \<open>Lines 78 to 80: the wage inflation factor of direct costs.\<close>

definition inflation_impact :: "real \<Rightarrow> nat \<Rightarrow> real" where
  "inflation_impact wage month_num =
     (if month_num \<ge> 4 then 1 + (wage / 100) else 1.0)"

text \<open>
  The body of the loop for the pair \<^verbatim>\<open>(i, date)\<close>: the record of the month and the generator
  after the draw, or the exception a power raised.
\<close>

definition month_record ::
  "drivers \<Rightarrow> real \<Rightarrow> nat \<Rightarrow> date \<Rightarrow> rng \<Rightarrow> error + (row \<times> rng)" where
  "month_record g revenue_retention i date s =
     (let retention_factor = revenue_retention / 100;
          month_num = i + 1
      in case float_pow (1 + corp_growth g / 100) (real month_num / 12) of
           Inl e \<Rightarrow> Inl e
         | Inr monthly_growth_factor \<Rightarrow>
      let rev_corp = py_mul (py_mul (py_mul (Fl base_corp) monthly_growth_factor)
                       (Fl (season_factor (q1_seasonality g) month_num))) (Fl retention_factor)
      in case float_pow (1 + fund_growth g / 100) (real month_num / 12) of
           Inl e \<Rightarrow> Inl e
         | Inr fund_factor \<Rightarrow>
      let rev_fund = py_mul (py_mul (Fl base_fund) fund_factor) (Fl retention_factor);
          (random_shock, s') = random_normal s
      in case float_pow (1 + advisory_growth g / 100) (real month_num / 12) of
           Inl e \<Rightarrow> Inl e
         | Inr adv_factor \<Rightarrow>
      let rev_adv = py_mul (py_mul (py_mul (Fl base_adv) adv_factor) (Fl random_shock))
                      (Fl retention_factor);
          cost_direct = base_cost * inflation_impact (wage_inflation g) month_num;
          cost_opex = base_opex * 1.02;
          total_rev = py_add (py_add rev_corp rev_fund) rev_adv;
          ebitda = py_sub (py_sub total_rev (Fl cost_direct)) (Fl cost_opex)
      in Inr (\<lparr> Month = strftime_b date,
                 Month_Num = month_num,
                 Rev_Corporate = rev_corp,
                 Rev_Fund = rev_fund,
                 Rev_Advisory = rev_adv,
                 Total_Revenue = total_rev,
                 Direct_Costs = py_neg (Fl cost_direct),
                 OpEx = py_neg (Fl cost_opex),
                 EBITDA = ebitda \<rparr>, s'))"

text \<open>The loop over \<^verbatim>\<open>enumerate(months)\<close>, appending to \<^verbatim>\<open>data\<close>.\<close>

fun forecast_loop ::
  "drivers \<Rightarrow> real \<Rightarrow> (nat \<times> date) list \<Rightarrow> row list \<Rightarrow> rng \<Rightarrow> error + (row list \<times> rng)" where
  "forecast_loop g revenue_retention [] data s = Inr (data, s)"
| "forecast_loop g revenue_retention ((i, date) # rest) data s =
     (case month_record g revenue_retention i date s of
        Inl e \<Rightarrow> Inl e
      | Inr (r, s') \<Rightarrow> forecast_loop g revenue_retention rest (data @ [r]) s')"

definition generate_forecast :: "drivers \<Rightarrow> real \<Rightarrow> rng \<Rightarrow> error + (row list \<times> rng)" where
  "generate_forecast g revenue_retention s =
     forecast_loop g revenue_retention (enumerate 0 months) [] s"

text \<open>What the caller reads back: the records of a run, none when the run raised.\<close>

definition records :: "error + (row list \<times> rng) \<Rightarrow> row list" where
  "records res = (case res of Inl e \<Rightarrow> [] | Inr (rs, s') \<Rightarrow> rs)"

section \<open>EBITDA margin\<close>

text \<open>
  Line 125, \<^verbatim>\<open>(df["EBITDA"] / df["Total_Revenue"]) * 100\<close>, cell by cell on float64 columns.
  The division of the array library raises nothing on a zero divisor: it yields an IEEE
  infinity, or NaN for 0/0. The sign of the infinity is that of the operands, zero included;
  a real number keeps no sign of zero, so one constructor stands for both infinities.
  Columns that hold a complex value are not modelled.
\<close>

datatype float64 = Finite real | Infinity | NaN

definition np_true_divide :: "real \<Rightarrow> real \<Rightarrow> float64" where
  "np_true_divide a b =
     (if b = 0 then (if a = 0 then NaN else Infinity) else Finite (a / b))"

fun np_multiply :: "float64 \<Rightarrow> real \<Rightarrow> float64" where
  "np_multiply (Finite x) c = Finite (x * c)"
| "np_multiply Infinity c = (if c = 0 then NaN else Infinity)"
| "np_multiply NaN c = NaN"

definition EBITDA_Margin :: "real \<Rightarrow> real \<Rightarrow> float64" where
  "EBITDA_Margin ebitda total_revenue = np_multiply (np_true_divide ebitda total_revenue) 100"

section \<open>Closed form of a run\<close>

text \<open>
  The exponent \<^verbatim>\<open>month_num/12\<close> is positive in every month, so no power raises; \<open>pow_val\<close>
  is the value of the power and \<open>month_row\<close> the record of the month, as functions of the
  month's noise draw.
\<close>

definition pow_val :: "real \<Rightarrow> real \<Rightarrow> pynum" where
  "pow_val v w = projr (float_pow v w)"

definition month_row :: "drivers \<Rightarrow> real \<Rightarrow> nat \<Rightarrow> date \<Rightarrow> real \<Rightarrow> row" where
  "month_row g revenue_retention i date random_shock =
     (let retention_factor = revenue_retention / 100;
          month_num = i + 1;
          rev_corp = py_mul (py_mul (py_mul (Fl base_corp)
                       (pow_val (1 + corp_growth g / 100) (real month_num / 12)))
                       (Fl (season_factor (q1_seasonality g) month_num))) (Fl retention_factor);
          rev_fund = py_mul (py_mul (Fl base_fund)
                       (pow_val (1 + fund_growth g / 100) (real month_num / 12)))
                       (Fl retention_factor);
          rev_adv = py_mul (py_mul (py_mul (Fl base_adv)
                       (pow_val (1 + advisory_growth g / 100) (real month_num / 12)))
                       (Fl random_shock)) (Fl retention_factor);
          cost_direct = base_cost * inflation_impact (wage_inflation g) month_num;
          cost_opex = base_opex * 1.02;
          total_rev = py_add (py_add rev_corp rev_fund) rev_adv
      in \<lparr> Month = strftime_b date,
           Month_Num = month_num,
           Rev_Corporate = rev_corp,
           Rev_Fund = rev_fund,
           Rev_Advisory = rev_adv,
           Total_Revenue = total_rev,
           Direct_Costs = Fl (- cost_direct),
           OpEx = Fl (- cost_opex),
           EBITDA = py_sub (py_sub total_rev (Fl cost_direct)) (Fl cost_opex) \<rparr>)"

section \<open>Example inputs\<close>

text \<open>The defaults of the sidebar, a flat scenario without growth, and a scenario outside the
  slider ranges with corporate growth of -150 percent.\<close>

definition default_drivers :: drivers where
  "default_drivers = \<lparr> corp_growth = 4.0, fund_growth = 9.0, advisory_growth = 2.0,
                        wage_inflation = 4.5, q1_seasonality = True \<rparr>"

definition flat_drivers :: drivers where
  "flat_drivers = \<lparr> corp_growth = 0, fund_growth = 0, advisory_growth = 0,
                     wage_inflation = 0, q1_seasonality = False \<rparr>"

definition collapse_drivers :: drivers where
  "collapse_drivers = \<lparr> corp_growth = -150.0, fund_growth = 9.0, advisory_growth = 2.0,
                         wage_inflation = 4.5, q1_seasonality = True \<rparr>"

text \<open>A noise source stubbed to return the same value on every call, and one that returns
  a value on its first \<open>k\<close> calls and another one afterwards.\<close>

definition const_rng :: "real \<Rightarrow> rng" where
  "const_rng c = (\<lambda>n. c)"

definition stub_then :: "nat \<Rightarrow> real \<Rightarrow> real \<Rightarrow> rng" where
  "stub_then k a b = (\<lambda>n. if n < k then a else b)"

section \<open>Lemmas about a run\<close>

lemma float_pow_Inr: "0 < w \<Longrightarrow> float_pow v w = Inr (pow_val v w)"
  by (simp add: float_pow_def pow_val_def)

lemma pow_val_pos: "0 < v \<Longrightarrow> 0 < w \<Longrightarrow> pow_val v w = Fl (v powr w)"
  by (simp add: float_pow_def pow_val_def)

lemma month_record_eq:
  "month_record g rr i date s = Inr (month_row g rr i date (s 0), \<lambda>n. s (Suc n))"
  by (simp add: month_record_def month_row_def float_pow_Inr random_normal_def Let_def)

lemma generate_forecast_map:
  "generate_forecast g rr s =
     Inr (map (\<lambda>i. month_row g rr i (months ! i) (s i)) [0..<12], \<lambda>n. s (n + 12))"
proof -
  have loop: "forecast_loop g rr (enumerate k ds) data s =
      Inr (data @ map (\<lambda>j. month_row g rr (k + j) (ds ! j) (s j)) [0..<length ds],
           \<lambda>n. s (n + length ds))" for k ds data s
  proof (induction ds arbitrary: k data s)
    case Nil
    show ?case by simp
  next
    case (Cons d ds)
    show ?case
      by (simp add: month_record_eq Cons.IH map_upt_Suc del: upt_Suc)
  qed
  have "length months = 12" by (simp add: months_def)
  then show ?thesis
    unfolding generate_forecast_def by (simp add: loop)
qed

lemma generate_forecast_returns: "\<exists>rs s'. generate_forecast g rr s = Inr (rs, s')"
  by (simp add: generate_forecast_map)

lemma in_rowsE:
  assumes "generate_forecast g rr s = Inr (rs, s')" and "r \<in> set rs"
  obtains i where "i < 12" and "r = month_row g rr i (months ! i) (s i)"
  using assms unfolding generate_forecast_map by auto

lemma rows_length: "generate_forecast g rr s = Inr (rs, s') \<Longrightarrow> length rs = 12"
  unfolding generate_forecast_map by auto

lemma rows_nth:
  "generate_forecast g rr s = Inr (rs, s') \<Longrightarrow> i < 12 \<Longrightarrow>
     rs ! i = month_row g rr i (months ! i) (s i)"
  unfolding generate_forecast_map by auto

lemma records_eq:
  "generate_forecast g rr s = Inr (rs, s') \<Longrightarrow> records (generate_forecast g rr s) = rs"
  by (simp add: records_def)

lemma Month_Num_row: "Month_Num (month_row g rr i d x) = i + 1"
  by (simp add: month_row_def Let_def)

lemma Direct_Costs_row:
  "Direct_Costs (month_row g rr i d x) = Fl (- (base_cost * inflation_impact (wage_inflation g) (i + 1)))"
  by (simp add: month_row_def Let_def)

lemma OpEx_row: "OpEx (month_row g rr i d x) = Fl (- (base_opex * 1.02))"
  by (simp add: month_row_def Let_def)

lemma Rev_Corporate_row:
  "Rev_Corporate (month_row g rr i d x) =
     py_mul (py_mul (py_mul (Fl base_corp) (pow_val (1 + corp_growth g / 100) (real (i + 1) / 12)))
       (Fl (season_factor (q1_seasonality g) (i + 1)))) (Fl (rr / 100))"
  by (simp add: month_row_def Let_def)

lemma Rev_Fund_row:
  "Rev_Fund (month_row g rr i d x) =
     py_mul (py_mul (Fl base_fund) (pow_val (1 + fund_growth g / 100) (real (i + 1) / 12)))
       (Fl (rr / 100))"
  by (simp add: month_row_def Let_def)

lemma Rev_Advisory_row:
  "Rev_Advisory (month_row g rr i d x) =
     py_mul (py_mul (py_mul (Fl base_adv) (pow_val (1 + advisory_growth g / 100) (real (i + 1) / 12)))
       (Fl x)) (Fl (rr / 100))"
  by (simp add: month_row_def Let_def)

lemma Month_row: "Month (month_row g rr i d x) = strftime_b d"
  by (simp add: month_row_def Let_def)

lemma py_sub_Fl: "py_sub a (Fl c) = py_add a (Fl (- c))"
  by (cases a) simp_all

lemma EBITDA_row:
  "EBITDA (month_row g rr i d x) =
     py_add (py_add (Total_Revenue (month_row g rr i d x)) (Direct_Costs (month_row g rr i d x)))
       (OpEx (month_row g rr i d x))"
  by (simp add: month_row_def Let_def py_sub_Fl)

lemma month_row_noise:
  "Rev_Advisory (month_row g rr i d x) = Rev_Advisory (month_row g rr i d y) \<Longrightarrow>
     month_row g rr i d x = month_row g rr i d y"
  by (simp add: month_row_def Let_def)

lemma row_at:
  assumes "generate_forecast g rr s = Inr (rs, s')" and "i < 12"
  shows "records (generate_forecast g rr s) ! i = rs ! i" and "rs ! i \<in> set rs"
    and "Month_Num (rs ! i) = i + 1"
proof -
  have len: "length rs = 12" by (rule rows_length [OF assms(1)])
  show "records (generate_forecast g rr s) ! i = rs ! i"
    by (simp add: records_eq [OF assms(1)])
  show "rs ! i \<in> set rs"
    using len assms(2) by simp
  show "Month_Num (rs ! i) = i + 1"
    by (simp add: rows_nth [OF assms] Month_Num_row)
qed

lemma first_row:
  "records (generate_forecast g rr s) ! 0 = month_row g rr 0 (2025, 1, 31) (s 0)"
  by (simp add: generate_forecast_map records_def months_def upt_rec)

lemma pow_val_zero: "0 < w \<Longrightarrow> pow_val 0 w = Fl 0"
  by (simp add: float_pow_def pow_val_def)

lemma pow_val_neg: "v < 0 \<Longrightarrow> 0 < w \<Longrightarrow> w < 1 \<Longrightarrow> is_Cx (pow_val v w)"
proof -
  assume v: "v < 0" and w: "0 < w" "w < 1"
  then have "\<lfloor>w\<rfloor> = 0" by (simp add: floor_eq_iff)
  with w have "real_of_int \<lfloor>w\<rfloor> \<noteq> w" by simp
  with v w show ?thesis
    by (simp add: float_pow_def pow_val_def)
qed

lemma pow_val_one: "0 < w \<Longrightarrow> pow_val 1 w = Fl 1"
  by (simp add: pow_val_pos)

lemma is_Cx_py_mul_left: "is_Cx a \<Longrightarrow> is_Cx (py_mul a b)"
  by (cases a; cases b) simp_all

lemma is_Cx_py_mul_right: "is_Cx b \<Longrightarrow> is_Cx (py_mul a b)"
  by (cases a; cases b) simp_all

lemma season_factor_pos: "0 < season_factor q m"
  by (simp add: season_factor_def)

lemma sign_scaled: "0 < (k::real) \<Longrightarrow> 0 < r \<Longrightarrow> (0 \<le> k * x * r) = (0 \<le> x)"
  by (simp add: zero_le_mult_iff)

lemma EBITDA_Margin_cases:
  "EBITDA_Margin e t = (if t = 0 then (if e = 0 then NaN else Infinity) else Finite (e / t * 100))"
  by (simp add: EBITDA_Margin_def np_true_divide_def)

lemma month_row_floats:
  assumes "- 100 < corp_growth g" and "- 100 < fund_growth g" and "- 100 < advisory_growth g"
  shows "\<exists>e t. EBITDA (month_row g rr i d x) = Fl e \<and> Total_Revenue (month_row g rr i d x) = Fl t"
proof -
  have w: "0 < real (i + 1) / 12" by simp
  have "0 < 1 + corp_growth g / 100" "0 < 1 + fund_growth g / 100" "0 < 1 + advisory_growth g / 100"
    using assms by simp_all
  then have "is_Fl (pow_val (1 + corp_growth g / 100) (real (i + 1) / 12))"
    "is_Fl (pow_val (1 + fund_growth g / 100) (real (i + 1) / 12))"
    "is_Fl (pow_val (1 + advisory_growth g / 100) (real (i + 1) / 12))"
    using w by (simp_all only: pow_val_pos pynum.disc)
  then obtain a b c where
    "pow_val (1 + corp_growth g / 100) (real (i + 1) / 12) = Fl a"
    "pow_val (1 + fund_growth g / 100) (real (i + 1) / 12) = Fl b"
    "pow_val (1 + advisory_growth g / 100) (real (i + 1) / 12) = Fl c"
    by (auto simp: is_Fl_def)
  then show ?thesis
    by (simp add: month_row_def Let_def)
qed

lemma flat_first_row:
  "Total_Revenue (records (generate_forecast flat_drivers rr (const_rng 1)) ! 0) = Fl (1150 / 12 * (rr / 100))"
  "EBITDA (records (generate_forecast flat_drivers rr (const_rng 1)) ! 0) =
     Fl (1150 / 12 * (rr / 100) - 520 / 12 - 24.225)"
  by (simp_all add: first_row month_row_def Let_def flat_drivers_def pow_val_one const_rng_def
      base_corp_def base_fund_def base_adv_def base_cost_def base_opex_def season_factor_def
      inflation_impact_def algebra_simps)

section \<open>Shape of the result\<close>

text \<open>
  C5. For every driver set, retention value and state of the noise source,
  \<^verbatim>\<open>generate_forecast\<close> returns, and returns exactly 12 records; their month numbers are
  1, 2, ..., 12 in this order, so strictly ascending, without gap or duplicate.
\<close>

theorem generate_forecast_twelve_months:
  "\<exists>rs s'. generate_forecast g rr s = Inr (rs, s') \<and> length rs = 12 \<and>
     map Month_Num rs = [1..<13] \<and> sorted_wrt (<) (map Month_Num rs) \<and>
     set (map Month_Num rs) = {1..12}"
proof -
  obtain rs s' where eq: "generate_forecast g rr s = Inr (rs, s')"
    using generate_forecast_returns by blast
  have "map Month_Num rs = map Suc [0..<12]"
    using eq unfolding generate_forecast_map by (auto simp: Month_Num_row)
  then have m: "map Month_Num rs = [1..<13]"
    by (simp only: map_Suc_upt) simp
  have st: "set (map Month_Num rs) = {1..12}"
    unfolding m by auto
  have sw: "sorted_wrt (<) (map Month_Num rs)"
    unfolding m by simp
  show ?thesis
    using eq m st sw rows_length [OF eq] by blast
qed

section \<open>Determinism\<close>

text \<open>
  C3. Determinism. Two runs with the same drivers and the same retention value, each on a noise
  source that returns exactly 1.0 on every one of its twelve calls, return the same sequence of
  records, whatever the two sources would return afterwards. Moreover, for any two states of the
  noise source the runs agree on the month label, the month number, corporate revenue, fund
  revenue, direct costs and operating expenses; and when they agree on advisory revenue they
  agree on the whole records, so total revenue and EBITDA depend on the noise through advisory
  revenue only.
\<close>

theorem generate_forecast_deterministic:
  "\<exists>rs1 rs2 s1' s2'.
     generate_forecast g rr s1 = Inr (rs1, s1') \<and> generate_forecast g rr s2 = Inr (rs2, s2') \<and>
     map Month rs1 = map Month rs2 \<and> map Month_Num rs1 = map Month_Num rs2 \<and>
     map Rev_Corporate rs1 = map Rev_Corporate rs2 \<and> map Rev_Fund rs1 = map Rev_Fund rs2 \<and>
     map Direct_Costs rs1 = map Direct_Costs rs2 \<and> map OpEx rs1 = map OpEx rs2 \<and>
     (map Rev_Advisory rs1 = map Rev_Advisory rs2 \<longrightarrow> rs1 = rs2) \<and>
     ((\<forall>i<12. s1 i = 1 \<and> s2 i = 1) \<longrightarrow> rs1 = rs2)"
proof -
  define rs1 where "rs1 = map (\<lambda>i. month_row g rr i (months ! i) (s1 i)) [0..<12]"
  define rs2 where "rs2 = map (\<lambda>i. month_row g rr i (months ! i) (s2 i)) [0..<12]"
  have eq1: "generate_forecast g rr s1 = Inr (rs1, \<lambda>n. s1 (n + 12))"
    by (simp add: generate_forecast_map rs1_def)
  have eq2: "generate_forecast g rr s2 = Inr (rs2, \<lambda>n. s2 (n + 12))"
    by (simp add: generate_forecast_map rs2_def)
  have fields: "map Month rs1 = map Month rs2" "map Month_Num rs1 = map Month_Num rs2"
    "map Rev_Corporate rs1 = map Rev_Corporate rs2" "map Rev_Fund rs1 = map Rev_Fund rs2"
    "map Direct_Costs rs1 = map Direct_Costs rs2" "map OpEx rs1 = map OpEx rs2"
    by (simp_all add: rs1_def rs2_def Month_row Month_Num_row Rev_Corporate_row Rev_Fund_row
        Direct_Costs_row OpEx_row)
  have through: "rs1 = rs2" if adv: "map Rev_Advisory rs1 = map Rev_Advisory rs2"
  proof -
    have "month_row g rr i (months ! i) (s1 i) = month_row g rr i (months ! i) (s2 i)"
      if "i < 12" for i
    proof -
      from adv have "map Rev_Advisory rs1 ! i = map Rev_Advisory rs2 ! i" by simp
      with \<open>i < 12\<close> show ?thesis
        by (intro month_row_noise) (simp add: rs1_def rs2_def)
    qed
    then show ?thesis by (simp add: rs1_def rs2_def)
  qed
  have stub: "rs1 = rs2" if "\<forall>i<12. s1 i = 1 \<and> s2 i = 1"
    using that by (simp add: rs1_def rs2_def)
  show ?thesis
    using eq1 eq2 fields through stub by blast
qed

theorem generate_forecast_deterministic_witness:
  "records (generate_forecast default_drivers 95 (const_rng 1)) =
     records (generate_forecast default_drivers 95 (stub_then 12 1 7)) \<and>
   map Rev_Corporate (records (generate_forecast default_drivers 95 (const_rng 1))) =
     map Rev_Corporate (records (generate_forecast default_drivers 95 (stub_then 12 1 7)))"
proof -
  obtain rs1 rs2 s1' s2' where
    eq1: "generate_forecast default_drivers 95 (const_rng 1) = Inr (rs1, s1')" and
    eq2: "generate_forecast default_drivers 95 (stub_then 12 1 7) = Inr (rs2, s2')" and
    corp: "map Rev_Corporate rs1 = map Rev_Corporate rs2" and
    stub: "(\<forall>i<12. const_rng 1 i = 1 \<and> stub_then 12 1 7 i = 1) \<longrightarrow> rs1 = rs2"
    using generate_forecast_deterministic [of default_drivers 95 "const_rng 1" "stub_then 12 1 7"] by blast
  have "\<forall>i<12. const_rng 1 i = 1 \<and> stub_then 12 1 7 i = 1"
    by (simp add: const_rng_def stub_then_def)
  with stub have "rs1 = rs2" by blast
  with corp show ?thesis
    unfolding records_eq [OF eq1] records_eq [OF eq2] by blast
qed

section \<open>Costs and EBITDA\<close>

text \<open>
  C4. In every returned record EBITDA is total revenue plus the stored direct costs plus the
  stored operating expenses. The stored operating expenses are a negative float in every
  record; the stored direct costs are a negative float in every record when wage inflation is
  above -100 percent, which holds for every documented value of the driver (at least 0).
\<close>

theorem ebitda_identity_costs_negative:
  "\<exists>rs s'. generate_forecast g rr s = Inr (rs, s') \<and> length rs = 12 \<and>
     (\<forall>r\<in>set rs.
        EBITDA r = py_add (py_add (Total_Revenue r) (Direct_Costs r)) (OpEx r) \<and>
        (\<exists>c. OpEx r = Fl c \<and> c < 0) \<and>
        (- 100 < wage_inflation g \<longrightarrow> (\<exists>c. Direct_Costs r = Fl c \<and> c < 0)))"
proof -
  obtain rs s' where eq: "generate_forecast g rr s = Inr (rs, s')"
    using generate_forecast_returns by blast
  have "EBITDA r = py_add (py_add (Total_Revenue r) (Direct_Costs r)) (OpEx r) \<and>
        (\<exists>c. OpEx r = Fl c \<and> c < 0) \<and>
        (- 100 < wage_inflation g \<longrightarrow> (\<exists>c. Direct_Costs r = Fl c \<and> c < 0))"
    if mem: "r \<in> set rs" for r
  proof -
    obtain i where "i < 12" and r: "r = month_row g rr i (months ! i) (s i)"
      using in_rowsE [OF eq mem] by blast
    have a: "EBITDA r = py_add (py_add (Total_Revenue r) (Direct_Costs r)) (OpEx r)"
      unfolding r by (rule EBITDA_row)
    have b: "\<exists>c. OpEx r = Fl c \<and> c < 0"
      by (simp add: r OpEx_row base_opex_def)
    have c: "\<exists>c. Direct_Costs r = Fl c \<and> c < 0" if w: "- 100 < wage_inflation g"
    proof -
      have "0 < inflation_impact (wage_inflation g) (i + 1)"
        using w by (simp add: inflation_impact_def)
      then show ?thesis
        by (simp add: r Direct_Costs_row base_cost_def)
    qed
    show ?thesis using a b c by blast
  qed
  then show ?thesis using eq rows_length [OF eq] by blast
qed

theorem ebitda_identity_costs_negative_witness:
  "- 100 < wage_inflation default_drivers \<and>
   EBITDA (records (generate_forecast default_drivers 95 (const_rng 1)) ! 3) =
     py_add (py_add (Total_Revenue (records (generate_forecast default_drivers 95 (const_rng 1)) ! 3))
       (Direct_Costs (records (generate_forecast default_drivers 95 (const_rng 1)) ! 3)))
       (OpEx (records (generate_forecast default_drivers 95 (const_rng 1)) ! 3)) \<and>
   (\<exists>c. Direct_Costs (records (generate_forecast default_drivers 95 (const_rng 1)) ! 3) = Fl c \<and> c < 0) \<and>
   (\<exists>c. OpEx (records (generate_forecast default_drivers 95 (const_rng 1)) ! 3) = Fl c \<and> c < 0)"
proof -
  obtain rs s' where eq: "generate_forecast default_drivers 95 (const_rng 1) = Inr (rs, s')"
    and all: "\<forall>r\<in>set rs.
        EBITDA r = py_add (py_add (Total_Revenue r) (Direct_Costs r)) (OpEx r) \<and>
        (\<exists>c. OpEx r = Fl c \<and> c < 0) \<and>
        (- 100 < wage_inflation default_drivers \<longrightarrow> (\<exists>c. Direct_Costs r = Fl c \<and> c < 0))"
    using ebitda_identity_costs_negative [of default_drivers 95 "const_rng 1"] by blast
  have w: "- 100 < wage_inflation default_drivers"
    by (simp add: default_drivers_def)
  have "rs ! 3 \<in> set rs"
    using row_at(2) [OF eq, of 3] by simp
  with all w show ?thesis
    unfolding records_eq [OF eq] by blast
qed

text \<open>
  C7. The magnitude of direct costs is a step function of the month: (520/12) * 1.0 in the
  records of months 1 to 3 and (520/12) * (1 + wage_inflation/100) in the records of months
  4 to 12; the months of the records are 1, ..., 12.
\<close>

theorem direct_costs_wage_step:
  "\<exists>rs s'. generate_forecast g rr s = Inr (rs, s') \<and> map Month_Num rs = [1..<13] \<and>
     (\<forall>r\<in>set rs. Month_Num r \<in> {1..3} \<longrightarrow> py_neg (Direct_Costs r) = Fl ((520 / 12) * 1.0)) \<and>
     (\<forall>r\<in>set rs. Month_Num r \<in> {4..12} \<longrightarrow>
        py_neg (Direct_Costs r) = Fl ((520 / 12) * (1 + wage_inflation g / 100)))"
proof -
  obtain rs s' where eq: "generate_forecast g rr s = Inr (rs, s')"
    using generate_forecast_returns by blast
  have "map Month_Num rs = map Suc [0..<12]"
    using eq unfolding generate_forecast_map by (auto simp: Month_Num_row)
  then have m: "map Month_Num rs = [1..<13]"
    by (simp only: map_Suc_upt) simp
  have early: "py_neg (Direct_Costs r) = Fl ((520 / 12) * 1.0)"
    if mem: "r \<in> set rs" and mn: "Month_Num r \<in> {1..3}" for r
  proof -
    obtain i where "i < 12" and r: "r = month_row g rr i (months ! i) (s i)"
      using in_rowsE [OF eq mem] by blast
    from mn have "i + 1 < 4" by (simp add: r Month_Num_row)
    then show ?thesis
      by (simp add: r Direct_Costs_row inflation_impact_def base_cost_def)
  qed
  have late: "py_neg (Direct_Costs r) = Fl ((520 / 12) * (1 + wage_inflation g / 100))"
    if mem: "r \<in> set rs" and mn: "Month_Num r \<in> {4..12}" for r
  proof -
    obtain i where "i < 12" and r: "r = month_row g rr i (months ! i) (s i)"
      using in_rowsE [OF eq mem] by blast
    from mn have "4 \<le> i + 1" by (simp add: r Month_Num_row)
    then show ?thesis
      by (simp add: r Direct_Costs_row inflation_impact_def base_cost_def)
  qed
  show ?thesis using eq m early late by blast
qed

theorem direct_costs_wage_step_witness:
  "py_neg (Direct_Costs (records (generate_forecast default_drivers 95 (const_rng 1)) ! 2)) = Fl (520 / 12) \<and>
   py_neg (Direct_Costs (records (generate_forecast default_drivers 95 (const_rng 1)) ! 3)) = Fl (520 / 12 * 1.045)"
proof -
  obtain rs s' where eq: "generate_forecast default_drivers 95 (const_rng 1) = Inr (rs, s')"
    and early: "\<forall>r\<in>set rs. Month_Num r \<in> {1..3} \<longrightarrow> py_neg (Direct_Costs r) = Fl ((520 / 12) * 1.0)"
    and late: "\<forall>r\<in>set rs. Month_Num r \<in> {4..12} \<longrightarrow>
        py_neg (Direct_Costs r) = Fl ((520 / 12) * (1 + wage_inflation default_drivers / 100))"
    using direct_costs_wage_step [of default_drivers 95 "const_rng 1"] by blast
  have "py_neg (Direct_Costs (rs ! 2)) = Fl ((520 / 12) * 1.0)"
    using early row_at(2,3) [OF eq, of 2] by simp
  moreover have "py_neg (Direct_Costs (rs ! 3)) = Fl ((520 / 12) * (1 + wage_inflation default_drivers / 100))"
    using late row_at(2,3) [OF eq, of 3] by simp
  ultimately show ?thesis
    using row_at(1) [OF eq, of 2] row_at(1) [OF eq, of 3] by (simp add: default_drivers_def)
qed

text \<open>
  C8. In every one of the twelve records the stored operating expenses are the negation of
  (285/12) * 1.02, whatever the month.
\<close>

theorem opex_fixed_escalation:
  "\<exists>rs s'. generate_forecast g rr s = Inr (rs, s') \<and> length rs = 12 \<and>
     (\<forall>r\<in>set rs. OpEx r = py_neg (Fl ((285 / 12) * 1.02)))"
proof -
  obtain rs s' where eq: "generate_forecast g rr s = Inr (rs, s')"
    using generate_forecast_returns by blast
  have "OpEx r = py_neg (Fl ((285 / 12) * 1.02))" if mem: "r \<in> set rs" for r
  proof -
    obtain i where "i < 12" and r: "r = month_row g rr i (months ! i) (s i)"
      using in_rowsE [OF eq mem] by blast
    show ?thesis by (simp add: r OpEx_row base_opex_def)
  qed
  then show ?thesis using eq rows_length [OF eq] by blast
qed

theorem opex_fixed_escalation_witness:
  "OpEx (records (generate_forecast default_drivers 95 (const_rng 1)) ! 0) = Fl (- 24.225) \<and>
   OpEx (records (generate_forecast default_drivers 95 (const_rng 1)) ! 11) = Fl (- 24.225)"
proof -
  obtain rs s' where eq: "generate_forecast default_drivers 95 (const_rng 1) = Inr (rs, s')"
    and all: "\<forall>r\<in>set rs. OpEx r = py_neg (Fl ((285 / 12) * 1.02))"
    using opex_fixed_escalation [of default_drivers 95 "const_rng 1"] by blast
  have "OpEx (rs ! 0) = py_neg (Fl ((285 / 12) * 1.02))"
    using all row_at(2) [OF eq, of 0] by simp
  moreover have "OpEx (rs ! 11) = py_neg (Fl ((285 / 12) * 1.02))"
    using all row_at(2) [OF eq, of 11] by simp
  ultimately show ?thesis
    using row_at(1) [OF eq, of 0] row_at(1) [OF eq, of 11] by simp
qed

text \<open>
  C10. The cost fields are not affected by the revenue drivers or the noise: two runs with
  arbitrary drivers, retention values and noise sources have the same column of operating
  expenses, and the same column of direct costs as soon as they agree on wage inflation.
\<close>

theorem costs_frame:
  "\<exists>rs1 rs2 s1' s2'.
     generate_forecast g1 rr1 s1 = Inr (rs1, s1') \<and> generate_forecast g2 rr2 s2 = Inr (rs2, s2') \<and>
     map OpEx rs1 = map OpEx rs2 \<and>
     (wage_inflation g1 = wage_inflation g2 \<longrightarrow> map Direct_Costs rs1 = map Direct_Costs rs2)"
  by (simp add: generate_forecast_map OpEx_row Direct_Costs_row)

theorem costs_frame_witness:
  "map Direct_Costs (records (generate_forecast default_drivers 95 (const_rng 1))) =
     map Direct_Costs (records (generate_forecast (flat_drivers\<lparr>wage_inflation := 4.5\<rparr>) 70 (const_rng 0.9))) \<and>
   map OpEx (records (generate_forecast default_drivers 95 (const_rng 1))) =
     map OpEx (records (generate_forecast (flat_drivers\<lparr>wage_inflation := 4.5\<rparr>) 70 (const_rng 0.9)))"
proof -
  obtain rs1 rs2 s1' s2' where
    eq1: "generate_forecast default_drivers 95 (const_rng 1) = Inr (rs1, s1')" and
    eq2: "generate_forecast (flat_drivers\<lparr>wage_inflation := 4.5\<rparr>) 70 (const_rng 0.9) = Inr (rs2, s2')" and
    opex: "map OpEx rs1 = map OpEx rs2" and
    direct: "wage_inflation default_drivers = wage_inflation (flat_drivers\<lparr>wage_inflation := 4.5\<rparr>) \<longrightarrow>
              map Direct_Costs rs1 = map Direct_Costs rs2"
    using costs_frame [of default_drivers 95 "const_rng 1" "flat_drivers\<lparr>wage_inflation := 4.5\<rparr>" 70 "const_rng 0.9"]
    by blast
  have "wage_inflation default_drivers = wage_inflation (flat_drivers\<lparr>wage_inflation := 4.5\<rparr>)"
    by (simp add: default_drivers_def)
  with direct have "map Direct_Costs rs1 = map Direct_Costs rs2" by blast
  with opex show ?thesis
    unfolding records_eq [OF eq1] records_eq [OF eq2] by blast
qed

section \<open>Revenue\<close>



text \<open>
  The sign of each revenue line. With retention between 70 and 110 and growth rates above -100
  percent, corporate and fund revenue of every record are non-negative floats, and advisory
  revenue of a month is a float that is non-negative exactly when the draw of that month is
  non-negative: the engine does not clamp the draw.
\<close>

lemma revenue_by_draw:
  assumes "70 \<le> rr" and "rr \<le> 110"
    and "- 100 < corp_growth g" and "- 100 < fund_growth g" and "- 100 < advisory_growth g"
  shows "\<exists>rs s'. generate_forecast g rr s = Inr (rs, s') \<and> length rs = 12 \<and>
     (\<forall>i<12. \<exists>a b c.
        Rev_Corporate (rs ! i) = Fl a \<and> 0 \<le> a \<and>
        Rev_Fund (rs ! i) = Fl b \<and> 0 \<le> b \<and>
        Rev_Advisory (rs ! i) = Fl c \<and> (0 \<le> c \<longleftrightarrow> 0 \<le> s i))"
proof -
  obtain rs s' where eq: "generate_forecast g rr s = Inr (rs, s')"
    using generate_forecast_returns by blast
  have ret: "0 < rr / 100" using assms(1) by simp
  have "\<exists>a b c.
        Rev_Corporate (rs ! i) = Fl a \<and> 0 \<le> a \<and>
        Rev_Fund (rs ! i) = Fl b \<and> 0 \<le> b \<and>
        Rev_Advisory (rs ! i) = Fl c \<and> (0 \<le> c \<longleftrightarrow> 0 \<le> s i)" if i: "i < 12" for i
  proof -
    let ?w = "real (i + 1) / 12"
    have w: "0 < ?w" by simp
    have r: "rs ! i = month_row g rr i (months ! i) (s i)"
      by (rule rows_nth [OF eq i])
    have pc: "pow_val (1 + corp_growth g / 100) ?w = Fl ((1 + corp_growth g / 100) powr ?w)"
      using assms(3) w by (intro pow_val_pos) simp_all
    have pf: "pow_val (1 + fund_growth g / 100) ?w = Fl ((1 + fund_growth g / 100) powr ?w)"
      using assms(4) w by (intro pow_val_pos) simp_all
    have pa: "pow_val (1 + advisory_growth g / 100) ?w = Fl ((1 + advisory_growth g / 100) powr ?w)"
      using assms(5) w by (intro pow_val_pos) simp_all
    have gc: "0 < (1 + corp_growth g / 100) powr ?w" using assms(3) by simp
    have gf: "0 < (1 + fund_growth g / 100) powr ?w" using assms(4) by simp
    have ga: "0 < (1 + advisory_growth g / 100) powr ?w" using assms(5) by simp
    have corp: "Rev_Corporate (rs ! i) =
        Fl (base_corp * (1 + corp_growth g / 100) powr ?w * season_factor (q1_seasonality g) (i + 1) * (rr / 100))"
      unfolding r Rev_Corporate_row pc by simp
    have corp0: "0 \<le> base_corp * (1 + corp_growth g / 100) powr ?w * season_factor (q1_seasonality g) (i + 1) * (rr / 100)"
      using gc ret season_factor_pos [of "q1_seasonality g" "i + 1"]
      by (intro mult_nonneg_nonneg) (simp_all add: base_corp_def)
    have fund: "Rev_Fund (rs ! i) = Fl (base_fund * (1 + fund_growth g / 100) powr ?w * (rr / 100))"
      unfolding r Rev_Fund_row pf by simp
    have fund0: "0 \<le> base_fund * (1 + fund_growth g / 100) powr ?w * (rr / 100)"
      using gf ret by (intro mult_nonneg_nonneg) (simp_all add: base_fund_def)
    have adv: "Rev_Advisory (rs ! i) =
        Fl (base_adv * (1 + advisory_growth g / 100) powr ?w * s i * (rr / 100))"
      unfolding r Rev_Advisory_row pa by simp
    have k: "0 < base_adv * (1 + advisory_growth g / 100) powr ?w"
      using ga by (simp add: base_adv_def)
    have adv0: "0 \<le> base_adv * (1 + advisory_growth g / 100) powr ?w * s i * (rr / 100) \<longleftrightarrow> 0 \<le> s i"
      by (rule sign_scaled [OF k ret])
    show ?thesis using corp corp0 fund fund0 adv adv0 by blast
  qed
  then show ?thesis using eq rows_length [OF eq] by blast
qed

text \<open>
  C9. For every driver set within the documented ranges (retention between 70 and 110, growth
  rates above -100 percent; wage inflation plays no part) and for every sequence of draws the
  noise source can return, every returned record has non-negative corporate, fund and advisory
  revenue.
\<close>

theorem revenues_nonnegative:
  assumes "70 \<le> rr" and "rr \<le> 110"
    and "- 100 < corp_growth g" and "- 100 < fund_growth g" and "- 100 < advisory_growth g"
    and "normal_draws s"
  shows "\<exists>rs s'. generate_forecast g rr s = Inr (rs, s') \<and> length rs = 12 \<and>
     (\<forall>r\<in>set rs. \<exists>a b c.
        Rev_Corporate r = Fl a \<and> 0 \<le> a \<and>
        Rev_Fund r = Fl b \<and> 0 \<le> b \<and>
        Rev_Advisory r = Fl c \<and> 0 \<le> c)"
proof -
  obtain rs s' where eq: "generate_forecast g rr s = Inr (rs, s')" and len: "length rs = 12"
    and sign: "\<forall>i<12. \<exists>a b c.
        Rev_Corporate (rs ! i) = Fl a \<and> 0 \<le> a \<and>
        Rev_Fund (rs ! i) = Fl b \<and> 0 \<le> b \<and>
        Rev_Advisory (rs ! i) = Fl c \<and> (0 \<le> c \<longleftrightarrow> 0 \<le> s i)"
    using revenue_by_draw [OF assms(1-5), of s] by blast
  have draw: "0 \<le> s i" if "i < 12" for i
  proof -
    from assms(6) that have "normal_draw (s i)"
      by (simp add: normal_draws_def list_all_iff)
    then show ?thesis by (simp add: normal_draw_def)
  qed
  have "\<exists>a b c.
        Rev_Corporate r = Fl a \<and> 0 \<le> a \<and>
        Rev_Fund r = Fl b \<and> 0 \<le> b \<and>
        Rev_Advisory r = Fl c \<and> 0 \<le> c" if mem: "r \<in> set rs" for r
  proof -
    from mem len obtain i where i: "i < 12" and r: "r = rs ! i"
      by (auto simp: in_set_conv_nth)
    from sign i draw [OF i] show ?thesis
      unfolding r by blast
  qed
  then show ?thesis using eq len by blast
qed

theorem revenues_nonnegative_witness:
  "70 \<le> (95::real) \<and> (95::real) \<le> 110 \<and> - 100 < corp_growth default_drivers \<and>
   - 100 < fund_growth default_drivers \<and> - 100 < advisory_growth default_drivers \<and>
   normal_draws (stub_then 6 0.76 1.24) \<and>
   (\<exists>a b c.
      Rev_Corporate (records (generate_forecast default_drivers 95 (stub_then 6 0.76 1.24)) ! 11) = Fl a \<and> 0 \<le> a \<and>
      Rev_Fund (records (generate_forecast default_drivers 95 (stub_then 6 0.76 1.24)) ! 11) = Fl b \<and> 0 \<le> b \<and>
      Rev_Advisory (records (generate_forecast default_drivers 95 (stub_then 6 0.76 1.24)) ! 11) = Fl c \<and> 0 \<le> c)"
proof -
  have h: "70 \<le> (95::real)" "(95::real) \<le> 110" "- 100 < corp_growth default_drivers"
    "- 100 < fund_growth default_drivers" "- 100 < advisory_growth default_drivers"
    by (simp_all add: default_drivers_def)
  have d: "normal_draws (stub_then 6 0.76 1.24)"
    by (simp add: normal_draws_def normal_draw_def stub_then_def list_all_iff)
  obtain rs s' where eq: "generate_forecast default_drivers 95 (stub_then 6 0.76 1.24) = Inr (rs, s')"
    and all: "\<forall>r\<in>set rs. \<exists>a b c.
        Rev_Corporate r = Fl a \<and> 0 \<le> a \<and>
        Rev_Fund r = Fl b \<and> 0 \<le> b \<and>
        Rev_Advisory r = Fl c \<and> 0 \<le> c"
    using revenues_nonnegative [OF h d] by blast
  have "rs ! 11 \<in> set rs"
    using row_at(2) [OF eq, of 11] by simp
  with all have "\<exists>a b c.
        Rev_Corporate (rs ! 11) = Fl a \<and> 0 \<le> a \<and>
        Rev_Fund (rs ! 11) = Fl b \<and> 0 \<le> b \<and>
        Rev_Advisory (rs ! 11) = Fl c \<and> 0 \<le> c"
    by blast
  then show ?thesis
    using h d unfolding records_eq [OF eq] by blast
qed

section \<open>Errors\<close>

text \<open>
  C1, as the code has it. \<^verbatim>\<open>generate_forecast\<close> reports no error for any drivers: it
  always returns twelve records. When \<open>1 + growth/100\<close> is negative for a revenue line, that
  line is a complex number in the records of months 1 to 11; when it is zero, the line is 0.0 in
  every record.
\<close>

theorem generate_forecast_reports_no_error:
  "\<exists>rs s'. generate_forecast g rr s = Inr (rs, s') \<and> length rs = 12 \<and>
     (1 + corp_growth g / 100 < 0 \<longrightarrow> (\<forall>i<11. is_Cx (Rev_Corporate (rs ! i)))) \<and>
     (1 + fund_growth g / 100 < 0 \<longrightarrow> (\<forall>i<11. is_Cx (Rev_Fund (rs ! i)))) \<and>
     (1 + advisory_growth g / 100 < 0 \<longrightarrow> (\<forall>i<11. is_Cx (Rev_Advisory (rs ! i)))) \<and>
     (1 + corp_growth g / 100 = 0 \<longrightarrow> (\<forall>i<12. Rev_Corporate (rs ! i) = Fl 0)) \<and>
     (1 + fund_growth g / 100 = 0 \<longrightarrow> (\<forall>i<12. Rev_Fund (rs ! i) = Fl 0)) \<and>
     (1 + advisory_growth g / 100 = 0 \<longrightarrow> (\<forall>i<12. Rev_Advisory (rs ! i) = Fl 0))"
proof -
  obtain rs s' where eq: "generate_forecast g rr s = Inr (rs, s')"
    using generate_forecast_returns by blast
  have r: "rs ! i = month_row g rr i (months ! i) (s i)" if "i < 12" for i
    using rows_nth [OF eq that] .
  have cx: "is_Cx (pow_val v (real (i + 1) / 12))" if "v < 0" and "i < 11" for v i
    using that by (intro pow_val_neg) simp_all
  have c1: "is_Cx (Rev_Corporate (rs ! i))" if "1 + corp_growth g / 100 < 0" and "i < 11" for i
    unfolding r [OF less_trans [OF that(2)], simplified] Rev_Corporate_row
    by (rule is_Cx_py_mul_left [OF is_Cx_py_mul_left [OF is_Cx_py_mul_right [OF cx [OF that]]]])
  have c2: "is_Cx (Rev_Fund (rs ! i))" if "1 + fund_growth g / 100 < 0" and "i < 11" for i
    unfolding r [OF less_trans [OF that(2)], simplified] Rev_Fund_row
    by (rule is_Cx_py_mul_left [OF is_Cx_py_mul_right [OF cx [OF that]]])
  have c3: "is_Cx (Rev_Advisory (rs ! i))" if "1 + advisory_growth g / 100 < 0" and "i < 11" for i
    unfolding r [OF less_trans [OF that(2)], simplified] Rev_Advisory_row
    by (rule is_Cx_py_mul_left [OF is_Cx_py_mul_left [OF is_Cx_py_mul_right [OF cx [OF that]]]])
  have z1: "Rev_Corporate (rs ! i) = Fl 0" if "1 + corp_growth g / 100 = 0" and "i < 12" for i
    using that by (simp add: r Rev_Corporate_row pow_val_zero)
  have z2: "Rev_Fund (rs ! i) = Fl 0" if "1 + fund_growth g / 100 = 0" and "i < 12" for i
    using that by (simp add: r Rev_Fund_row pow_val_zero)
  have z3: "Rev_Advisory (rs ! i) = Fl 0" if "1 + advisory_growth g / 100 = 0" and "i < 12" for i
    using that by (simp add: r Rev_Advisory_row pow_val_zero)
  show ?thesis
    using eq rows_length [OF eq] c1 c2 c3 z1 z2 z3 by blast
qed

theorem generate_forecast_reports_no_error_witness:
  "1 + corp_growth collapse_drivers / 100 < 0 \<and>
   length (records (generate_forecast collapse_drivers 95 (const_rng 1))) = 12 \<and>
   is_Cx (Rev_Corporate (records (generate_forecast collapse_drivers 95 (const_rng 1)) ! 10))"
proof -
  obtain rs s' where eq: "generate_forecast collapse_drivers 95 (const_rng 1) = Inr (rs, s')"
    and len: "length rs = 12"
    and cx: "1 + corp_growth collapse_drivers / 100 < 0 \<longrightarrow> (\<forall>i<11. is_Cx (Rev_Corporate (rs ! i)))"
    using generate_forecast_reports_no_error [of collapse_drivers 95 "const_rng 1"] by blast
  have neg: "1 + corp_growth collapse_drivers / 100 < 0"
    by (simp add: collapse_drivers_def)
  with cx have "is_Cx (Rev_Corporate (rs ! 10))" by simp
  with neg len show ?thesis
    unfolding records_eq [OF eq] by blast
qed

text \<open>
  C1 as stated fails: with corporate growth of -150 percent the run reports no DomainError, nor
  any other error, and corporate revenue of month 1 is a complex number with a non-zero
  imaginary part.
\<close>

theorem collapse_growth_returns_complex:
  "corp_growth collapse_drivers = - 150 \<and>
   generate_forecast collapse_drivers 95 (const_rng 1) \<noteq> Inl DomainError \<and>
   \<not> isl (generate_forecast collapse_drivers 95 (const_rng 1)) \<and>
   is_Cx (Rev_Corporate (records (generate_forecast collapse_drivers 95 (const_rng 1)) ! 0)) \<and>
   Im (to_complex (Rev_Corporate (records (generate_forecast collapse_drivers 95 (const_rng 1)) ! 0))) \<noteq> 0"
proof -
  have a: "corp_growth collapse_drivers = - 150"
    by (simp add: collapse_drivers_def)
  have b: "generate_forecast collapse_drivers 95 (const_rng 1) \<noteq> Inl DomainError"
    "\<not> isl (generate_forecast collapse_drivers 95 (const_rng 1))"
    by (simp_all add: generate_forecast_map)
  have p: "pow_val (- (1 / 2)) (1 / 12) =
      Cx (Complex ((1 / 2) powr (1 / 12) * cos (pi * (1 / 12))) ((1 / 2) powr (1 / 12) * sin (pi * (1 / 12))))"
    by (simp add: pow_val_def float_pow_def)
  have v: "Rev_Corporate (records (generate_forecast collapse_drivers 95 (const_rng 1)) ! 0) =
      py_mul (py_mul (py_mul (Fl (690 / 12)) (pow_val (- (1 / 2)) (1 / 12))) (Fl 1.15)) (Fl (95 / 100))"
    by (simp add: first_row Rev_Corporate_row collapse_drivers_def base_corp_def season_factor_def)
  have s: "0 < sin (pi * (1 / 12))"
    by (intro sin_gt_zero) simp_all
  from s have im: "Im (to_complex (Rev_Corporate (records (generate_forecast collapse_drivers 95 (const_rng 1)) ! 0))) \<noteq> 0"
    unfolding v p by simp
  have cx: "is_Cx (Rev_Corporate (records (generate_forecast collapse_drivers 95 (const_rng 1)) ! 0))"
    unfolding v p by simp
  show ?thesis using a b cx im by blast
qed

text \<open>
  C2, as the code has it. With growth rates above -100 percent, EBITDA and total revenue of
  every record are floats; the margin is \<open>ebitda / total_revenue * 100\<close> when total revenue is
  not zero, and when it is zero the margin is an infinity, or NaN if EBITDA is zero too. No
  error and no marker of an undefined value is produced.
\<close>

theorem ebitda_margin_values:
  assumes "- 100 < corp_growth g" and "- 100 < fund_growth g" and "- 100 < advisory_growth g"
  shows "\<exists>rs s'. generate_forecast g rr s = Inr (rs, s') \<and> length rs = 12 \<and>
     (\<forall>r\<in>set rs. \<exists>e t. EBITDA r = Fl e \<and> Total_Revenue r = Fl t \<and>
        (t \<noteq> 0 \<longrightarrow> EBITDA_Margin e t = Finite (e / t * 100)) \<and>
        (t = 0 \<longrightarrow> EBITDA_Margin e t = (if e = 0 then NaN else Infinity)))"
proof -
  obtain rs s' where eq: "generate_forecast g rr s = Inr (rs, s')"
    using generate_forecast_returns by blast
  have "\<exists>e t. EBITDA r = Fl e \<and> Total_Revenue r = Fl t \<and>
        (t \<noteq> 0 \<longrightarrow> EBITDA_Margin e t = Finite (e / t * 100)) \<and>
        (t = 0 \<longrightarrow> EBITDA_Margin e t = (if e = 0 then NaN else Infinity))"
    if mem: "r \<in> set rs" for r
  proof -
    obtain i where "i < 12" and r: "r = month_row g rr i (months ! i) (s i)"
      using in_rowsE [OF eq mem] by blast
    obtain e t where "EBITDA r = Fl e" and "Total_Revenue r = Fl t"
      unfolding r using month_row_floats [OF assms] by blast
    then show ?thesis
      by (auto simp: EBITDA_Margin_cases)
  qed
  then show ?thesis using eq rows_length [OF eq] by blast
qed

theorem ebitda_margin_values_witness:
  "- 100 < corp_growth flat_drivers \<and> - 100 < fund_growth flat_drivers \<and>
   - 100 < advisory_growth flat_drivers \<and>
   Total_Revenue (records (generate_forecast flat_drivers 100 (const_rng 1)) ! 0) = Fl (1150 / 12) \<and>
   EBITDA (records (generate_forecast flat_drivers 100 (const_rng 1)) ! 0) = Fl (1150 / 12 - 520 / 12 - 24.225) \<and>
   EBITDA_Margin (1150 / 12 - 520 / 12 - 24.225) (1150 / 12) =
     Finite ((1150 / 12 - 520 / 12 - 24.225) / (1150 / 12) * 100)"
proof -
  have h: "- 100 < corp_growth flat_drivers" "- 100 < fund_growth flat_drivers"
    "- 100 < advisory_growth flat_drivers"
    by (simp_all add: flat_drivers_def)
  obtain rs s' where eq: "generate_forecast flat_drivers 100 (const_rng 1) = Inr (rs, s')"
    and all: "\<forall>r\<in>set rs. \<exists>e t. EBITDA r = Fl e \<and> Total_Revenue r = Fl t \<and>
        (t \<noteq> 0 \<longrightarrow> EBITDA_Margin e t = Finite (e / t * 100)) \<and>
        (t = 0 \<longrightarrow> EBITDA_Margin e t = (if e = 0 then NaN else Infinity))"
    using ebitda_margin_values [OF h, of 100 "const_rng 1"] by blast
  have t: "Total_Revenue (rs ! 0) = Fl (1150 / 12)"
    and e: "EBITDA (rs ! 0) = Fl (1150 / 12 - 520 / 12 - 24.225)"
    using flat_first_row [of 100] unfolding records_eq [OF eq] by simp_all
  have "rs ! 0 \<in> set rs"
    using row_at(2) [OF eq, of 0] by simp
  with all obtain e' t' where E: "EBITDA (rs ! 0) = Fl e'" and T: "Total_Revenue (rs ! 0) = Fl t'"
    and imp: "t' \<noteq> 0 \<longrightarrow> EBITDA_Margin e' t' = Finite (e' / t' * 100)"
    by blast
  have e': "e' = 1150 / 12 - 520 / 12 - 24.225"
    using E e by (simp only: pynum.inject)
  have t': "t' = 1150 / 12"
    using T t by (simp only: pynum.inject)
  have "t' \<noteq> 0" by (simp add: t')
  with imp have "EBITDA_Margin e' t' = Finite (e' / t' * 100)" by blast
  then have m: "EBITDA_Margin (1150 / 12 - 520 / 12 - 24.225) (1150 / 12) =
     Finite ((1150 / 12 - 520 / 12 - 24.225) / (1150 / 12) * 100)"
    by (simp only: e' t')
  show ?thesis
    using h t e m unfolding records_eq [OF eq] by blast
qed

text \<open>
  C2 as stated fails: with a retention of 0 total revenue of month 1 is 0.0, EBITDA is
  negative, and the margin is an infinity.
\<close>

theorem ebitda_margin_zero_revenue_infinity:
  "Total_Revenue (records (generate_forecast flat_drivers 0 (const_rng 1)) ! 0) = Fl 0 \<and>
   EBITDA (records (generate_forecast flat_drivers 0 (const_rng 1)) ! 0) = Fl (- (520 / 12) - 24.225) \<and>
   EBITDA_Margin (- (520 / 12) - 24.225) 0 = Infinity"
  using flat_first_row [of 0] by (simp add: EBITDA_Margin_cases)

end
